theory Spec2Isabelle
  imports Complex_Main "HOL-Library.Multiset"
begin

section \<open>JavaScript values read and computed by the importer\<close>

text \<open>
  The importer of \<^verbatim>\<open>src/app.js\<close> works on a document that \<^verbatim>\<open>JSON.parse\<close> has produced.
  A number of that document is a finite double; it is modelled by a real, so the rounding
  and the overflow of \<^verbatim>\<open>+ - * /\<close> and the sign of zero are outside the model
  (comparison, \<^verbatim>\<open>Math.min\<close> and \<^verbatim>\<open>Math.max\<close> do not round). What the code computes from
  the numbers may also be \<^verbatim>\<open>undefined\<close>, \<^verbatim>\<open>NaN\<close> or an infinity, and these are values
  of the model.
\<close>

datatype jsval = Undefined | NaN | NegInf | Fin real | PosInf

text \<open>\<^verbatim>\<open>ToNumber\<close> on these values: \<^verbatim>\<open>undefined\<close> becomes \<^verbatim>\<open>NaN\<close>.\<close>

definition ToNumber :: "jsval \<Rightarrow> jsval" where
  "ToNumber v = (if v = Undefined then NaN else v)"

text \<open>The relational operators \<^verbatim>\<open><\<close> and \<^verbatim>\<open><=\<close>: false as soon as one side is
  \<^verbatim>\<open>NaN\<close> or \<^verbatim>\<open>undefined\<close>.\<close>

fun js_lt :: "jsval \<Rightarrow> jsval \<Rightarrow> bool" where
  "js_lt (Fin a) (Fin b) = (a < b)"
| "js_lt NegInf (Fin b) = True"
| "js_lt NegInf PosInf = True"
| "js_lt (Fin a) PosInf = True"
| "js_lt _ _ = False"

fun js_le :: "jsval \<Rightarrow> jsval \<Rightarrow> bool" where
  "js_le (Fin a) (Fin b) = (a \<le> b)"
| "js_le NegInf NegInf = True"
| "js_le NegInf (Fin b) = True"
| "js_le NegInf PosInf = True"
| "js_le (Fin a) PosInf = True"
| "js_le PosInf PosInf = True"
| "js_le _ _ = False"

text \<open>\<^verbatim>\<open>Math.min(...vs)\<close> and \<^verbatim>\<open>Math.max(...vs)\<close>: every argument goes through
  \<^verbatim>\<open>ToNumber\<close>, one \<^verbatim>\<open>NaN\<close> makes the result \<^verbatim>\<open>NaN\<close>, and no argument at all
  gives \<^verbatim>\<open>Infinity\<close>, respectively \<^verbatim>\<open>-Infinity\<close>. The limit that an engine puts on
  the number of arguments of a spread call is not part of the model.\<close>

definition min2 :: "jsval \<Rightarrow> jsval \<Rightarrow> jsval" where
  "min2 a b = (if a = NaN \<or> b = NaN then NaN else if js_lt b a then b else a)"

definition max2 :: "jsval \<Rightarrow> jsval \<Rightarrow> jsval" where
  "max2 a b = (if a = NaN \<or> b = NaN then NaN else if js_lt a b then b else a)"

definition Math_min :: "jsval list \<Rightarrow> jsval" where
  "Math_min vs = foldl min2 PosInf (map ToNumber vs)"

definition Math_max :: "jsval list \<Rightarrow> jsval" where
  "Math_max vs = foldl max2 NegInf (map ToNumber vs)"

text \<open>The arithmetic of \<^verbatim>\<open>expand\<close>. Both operands go through \<^verbatim>\<open>ToNumber\<close>; the last
  equation of each function is the \<^verbatim>\<open>NaN\<close> of an undefined or \<^verbatim>\<open>NaN\<close> operand and of
  the indeterminate forms. A zero divisor is read as \<^verbatim>\<open>+0\<close>.\<close>

fun js_add :: "jsval \<Rightarrow> jsval \<Rightarrow> jsval" where
  "js_add (Fin a) (Fin b) = Fin (a + b)"
| "js_add PosInf PosInf = PosInf"
| "js_add PosInf (Fin b) = PosInf"
| "js_add (Fin a) PosInf = PosInf"
| "js_add NegInf NegInf = NegInf"
| "js_add NegInf (Fin b) = NegInf"
| "js_add (Fin a) NegInf = NegInf"
| "js_add _ _ = NaN"

fun js_sub :: "jsval \<Rightarrow> jsval \<Rightarrow> jsval" where
  "js_sub (Fin a) (Fin b) = Fin (a - b)"
| "js_sub PosInf NegInf = PosInf"
| "js_sub PosInf (Fin b) = PosInf"
| "js_sub (Fin a) NegInf = PosInf"
| "js_sub NegInf PosInf = NegInf"
| "js_sub NegInf (Fin b) = NegInf"
| "js_sub (Fin a) PosInf = NegInf"
| "js_sub _ _ = NaN"

definition signed_inf :: "bool \<Rightarrow> jsval" where
  "signed_inf positive = (if positive then PosInf else NegInf)"

fun js_mul :: "jsval \<Rightarrow> jsval \<Rightarrow> jsval" where
  "js_mul (Fin a) (Fin b) = Fin (a * b)"
| "js_mul PosInf PosInf = PosInf"
| "js_mul NegInf NegInf = PosInf"
| "js_mul PosInf NegInf = NegInf"
| "js_mul NegInf PosInf = NegInf"
| "js_mul PosInf (Fin b) = (if b = 0 then NaN else signed_inf (0 < b))"
| "js_mul NegInf (Fin b) = (if b = 0 then NaN else signed_inf (b < 0))"
| "js_mul (Fin a) PosInf = (if a = 0 then NaN else signed_inf (0 < a))"
| "js_mul (Fin a) NegInf = (if a = 0 then NaN else signed_inf (a < 0))"
| "js_mul _ _ = NaN"

fun js_div :: "jsval \<Rightarrow> jsval \<Rightarrow> jsval" where
  "js_div (Fin a) (Fin b) =
     (if b = 0 then (if a = 0 then NaN else signed_inf (0 < a)) else Fin (a / b))"
| "js_div (Fin a) PosInf = Fin 0"
| "js_div (Fin a) NegInf = Fin 0"
| "js_div PosInf (Fin b) = signed_inf (0 \<le> b)"
| "js_div NegInf (Fin b) = signed_inf (b < 0)"
| "js_div _ _ = NaN"

section \<open>GeoJSON input\<close>

text \<open>
  A position is a JSON array of numbers; \<^verbatim>\<open>c[i]\<close> past its end is \<^verbatim>\<open>undefined\<close>.
\<close>

type_synonym position = "real list"

definition idx :: "position \<Rightarrow> nat \<Rightarrow> jsval" where
  "idx c i = (if i < length c then Fin (c ! i) else Undefined)"

text \<open>
  A geometry object, by its \<^verbatim>\<open>type\<close> member, with the \<^verbatim>\<open>coordinates\<close> member nested
  as RFC 7946 gives it for that type. \<open>OtherType t\<close> is an object whose \<^verbatim>\<open>type\<close> member
  \<open>t\<close> is none of the six names, \<^verbatim>\<open>GeometryCollection\<close> for one; the code reads
  nothing else of it.
\<close>

datatype geojson_geom =
    Point position
  | LineString "position list"
  | Polygon "position list list"
  | MultiPoint "position list"
  | MultiLineString "position list list"
  | MultiPolygon "position list list list"
  | OtherType string

fun geom_type :: "geojson_geom \<Rightarrow> string" where
  "geom_type (Point c) = ''Point''"
| "geom_type (LineString cs) = ''LineString''"
| "geom_type (Polygon rs) = ''Polygon''"
| "geom_type (MultiPoint cs) = ''MultiPoint''"
| "geom_type (MultiLineString ps) = ''MultiLineString''"
| "geom_type (MultiPolygon ps) = ''MultiPolygon''"
| "geom_type (OtherType t) = t"

text \<open>A property value is a JSON scalar; \<open>JUndefined\<close> is what reading an absent key
  gives. A properties object is the list of its entries in the order in which
  \<^verbatim>\<open>Object.entries\<close> enumerates them; \<open>None\<close> is an absent or \<^verbatim>\<open>null\<close> member.\<close>

datatype scalar = JUndefined | JNull | JBool bool | JNumber real | JString string

type_synonym properties = "(string \<times> scalar) list"

text \<open>A feature. Its \<^verbatim>\<open>geometry\<close> member is a geometry object or \<^verbatim>\<open>null\<close>, which
  RFC 7946 allows for a feature without a location; \<open>None\<close> is the \<^verbatim>\<open>null\<close>.\<close>

record feature =
  f_geometry :: "geojson_geom option"
  f_properties :: "properties option"

text \<open>The exception of the importer: reading a member of \<^verbatim>\<open>null\<close>.\<close>

datatype error = TypeError

datatype geojson_doc =
    FeatureCollection "feature list"
  | Feature feature
  | OtherDoc string

section \<open>Geometry conversion\<close>

datatype arcgis_geom =
    point (longitude: jsval) (latitude: jsval)
  | polyline (paths: "position list list")
  | polygon (rings: "position list list")
  | multipoint (points: "position list")

text \<open>\<^verbatim>\<open>convertGeoJSONGeometry\<close>: the \<^verbatim>\<open>switch\<close> on the type; \<open>None\<close> is the
  \<^verbatim>\<open>null\<close> of the default branch (the console warning is not part of the model).
  \<^verbatim>\<open>.flat()\<close> removes one level of nesting. The function is given here on geometry
  objects; its call on \<^verbatim>\<open>null\<close>, which throws at \<^verbatim>\<open>geojsonGeom.type\<close>, is the
  first branch of \<open>createGraphicFromGeoJSON\<close> below.\<close>

fun convertGeoJSONGeometry :: "geojson_geom \<Rightarrow> arcgis_geom option" where
  "convertGeoJSONGeometry (Point c) = Some (point (idx c 0) (idx c 1))"
| "convertGeoJSONGeometry (LineString cs) = Some (polyline [cs])"
| "convertGeoJSONGeometry (Polygon rs) = Some (polygon rs)"
| "convertGeoJSONGeometry (MultiPoint cs) = Some (multipoint cs)"
| "convertGeoJSONGeometry (MultiLineString ps) = Some (polyline ps)"
| "convertGeoJSONGeometry (MultiPolygon ps) = Some (polygon (concat ps))"
| "convertGeoJSONGeometry (OtherType t) = None"

section \<open>Symbols\<close>

datatype outline = Outline (outline_color: "real list") (outline_width: real)

datatype symbol =
    simple_marker (color: "real list") (size: real) (marker_outline: outline)
  | simple_line (color: "real list") (width: real)
  | simple_fill (color: "real list") (fill_outline: outline)

definition getSymbolForGeometry :: "string \<Rightarrow> symbol option" where
  "getSymbolForGeometry geomType =
     (if geomType = ''Point'' \<or> geomType = ''MultiPoint'' then
        Some (simple_marker [51, 51, 204, 0.7] 8 (Outline [255, 255, 255] 1))
      else if geomType = ''LineString'' \<or> geomType = ''MultiLineString'' then
        Some (simple_line [51, 51, 204, 0.8] 2)
      else if geomType = ''Polygon'' \<or> geomType = ''MultiPolygon'' then
        Some (simple_fill [51, 51, 204, 0.3] (Outline [51, 51, 204, 0.8] 2))
      else None)"

section \<open>Popup content\<close>

record popup =
  title :: scalar
  content :: string

text \<open>Truthiness of a scalar, and \<^verbatim>\<open>a || b\<close>.\<close>

fun truthy :: "scalar \<Rightarrow> bool" where
  "truthy JUndefined = False"
| "truthy JNull = False"
| "truthy (JBool b) = b"
| "truthy (JNumber r) = (r \<noteq> 0)"
| "truthy (JString s) = (s \<noteq> [])"

definition js_or :: "scalar \<Rightarrow> scalar \<Rightarrow> scalar" where
  "js_or a b = (if truthy a then a else b)"

text \<open>\<^verbatim>\<open>properties.key\<close>: the value of the entry, \<^verbatim>\<open>undefined\<close> without one.\<close>

definition get_prop :: "properties \<Rightarrow> string \<Rightarrow> scalar" where
  "get_prop ps k = (case map_of ps k of None \<Rightarrow> JUndefined | Some v \<Rightarrow> v)"

text \<open>The string a template literal makes of a value. The decimal text of a number is
  the runtime's \<^verbatim>\<open>Number::toString\<close>, which depends on the double's shortest
  representation: it is the parameter \<open>numToString\<close>.\<close>

fun ToString :: "(real \<Rightarrow> string) \<Rightarrow> scalar \<Rightarrow> string" where
  "ToString numToString JUndefined = ''undefined''"
| "ToString numToString JNull = ''null''"
| "ToString numToString (JBool b) = (if b then ''true'' else ''false'')"
| "ToString numToString (JNumber r) = numToString r"
| "ToString numToString (JString s) = s"

fun array_join :: "string \<Rightarrow> string list \<Rightarrow> string" where
  "array_join sep [] = []"
| "array_join sep [s] = s"
| "array_join sep (s # t # ss) = s @ sep @ array_join sep (t # ss)"

text \<open>The arrow function mapped over the entries:
  \<^verbatim>\<open>([key, value]) => `<b>${key}:</b> ${value}`\<close>.\<close>

definition property_line :: "(real \<Rightarrow> string) \<Rightarrow> string \<times> scalar \<Rightarrow> string" where
  "property_line numToString entry =
     ''<b>'' @ fst entry @ '':</b> '' @ ToString numToString (snd entry)"

definition createPopupTemplate :: "(real \<Rightarrow> string) \<Rightarrow> properties option \<Rightarrow> popup" where
  "createPopupTemplate numToString properties =
     (case properties of
        None \<Rightarrow> \<lparr>title = JString ''Feature'', content = ''No properties available''\<rparr>
      | Some ps \<Rightarrow>
          if length ps = 0 then
            \<lparr>title = JString ''Feature'', content = ''No properties available''\<rparr>
          else
            \<lparr>title = js_or (js_or (get_prop ps ''name'') (get_prop ps ''title''))
                       (JString ''Feature''),
             content = array_join ''<br>'' (map (property_line numToString) ps)\<rparr>)"

section \<open>Graphics\<close>

text \<open>The object given to the \<^verbatim>\<open>Graphic\<close> constructor of the mapping library, with the
  geometry as it was given.\<close>

record graphic =
  geometry :: arcgis_geom
  symbol :: "symbol option"
  attributes :: properties
  popupTemplate :: popup

text \<open>\<^verbatim>\<open>createGraphicFromGeoJSON\<close> passes \<^verbatim>\<open>feature.geometry\<close> to the conversion, which
  reads its \<^verbatim>\<open>type\<close> without a guard: on a \<^verbatim>\<open>null\<close> geometry that read throws a
  \<^verbatim>\<open>TypeError\<close>. \<open>Inr None\<close> is the \<^verbatim>\<open>null\<close> returned for a geometry that does not
  convert.\<close>

definition createGraphicFromGeoJSON ::
  "(real \<Rightarrow> string) \<Rightarrow> feature \<Rightarrow> error + graphic option" where
  "createGraphicFromGeoJSON numToString feature =
     (case f_geometry feature of
        None \<Rightarrow> Inl TypeError
      | Some geojsonGeom \<Rightarrow>
          (case convertGeoJSONGeometry geojsonGeom of
             None \<Rightarrow> Inr None
           | Some g \<Rightarrow>
               Inr (Some \<lparr>geometry = g,
                     symbol = getSymbolForGeometry (geom_type geojsonGeom),
                     attributes = (case f_properties feature of None \<Rightarrow> [] | Some ps \<Rightarrow> ps),
                     popupTemplate = createPopupTemplate numToString (f_properties feature)\<rparr>)))"

section \<open>Bounds\<close>

record bbox =
  xmin :: jsval
  ymin :: jsval
  xmax :: jsval
  ymax :: jsval
  spatialReference :: nat

text \<open>The four variables \<^verbatim>\<open>minX, minY, maxX, maxY\<close> of \<^verbatim>\<open>updateBounds\<close> after its
  \<^verbatim>\<open>if\<close> chain. The chain has a branch for \<^verbatim>\<open>point\<close>, \<^verbatim>\<open>polyline\<close> and
  \<^verbatim>\<open>polygon\<close>; for a \<^verbatim>\<open>multipoint\<close> the variables keep the \<^verbatim>\<open>undefined\<close> of
  their declaration.\<close>

fun geometry_minmax :: "arcgis_geom \<Rightarrow> jsval \<times> jsval \<times> jsval \<times> jsval" where
  "geometry_minmax (point lon lat) = (lon, lat, lon, lat)"
| "geometry_minmax (polyline ps) =
     (let coords = concat ps in
       (Math_min (map (\<lambda>c. idx c 0) coords), Math_min (map (\<lambda>c. idx c 1) coords),
        Math_max (map (\<lambda>c. idx c 0) coords), Math_max (map (\<lambda>c. idx c 1) coords)))"
| "geometry_minmax (polygon rs) =
     (let coords = concat rs in
       (Math_min (map (\<lambda>c. idx c 0) coords), Math_min (map (\<lambda>c. idx c 1) coords),
        Math_max (map (\<lambda>c. idx c 0) coords), Math_max (map (\<lambda>c. idx c 1) coords)))"
| "geometry_minmax (multipoint cs) = (Undefined, Undefined, Undefined, Undefined)"

definition updateBounds :: "bbox option \<Rightarrow> arcgis_geom option \<Rightarrow> bbox option" where
  "updateBounds bounds geom =
     (case geom of
        None \<Rightarrow> bounds
      | Some g \<Rightarrow>
          (case geometry_minmax g of (minX, minY, maxX, maxY) \<Rightarrow>
            (case bounds of
               None \<Rightarrow>
                 Some \<lparr>xmin = minX, ymin = minY, xmax = maxX, ymax = maxY,
                       spatialReference = 4326\<rparr>
             | Some b \<Rightarrow>
                 Some \<lparr>xmin = Math_min [xmin b, minX], ymin = Math_min [ymin b, minY],
                       xmax = Math_max [xmax b, maxX], ymax = Math_max [ymax b, maxY],
                       spatialReference = spatialReference b\<rparr>)))"

text \<open>The \<^verbatim>\<open>expand\<close> member of a box, with the box as \<^verbatim>\<open>this\<close>.\<close>

definition expand :: "bbox \<Rightarrow> jsval \<Rightarrow> bbox" where
  "expand this factor =
     (let width = js_sub (xmax this) (xmin this);
          height = js_sub (ymax this) (ymin this);
          expandWidth = js_div (js_mul width (js_sub factor (Fin 1))) (Fin 2);
          expandHeight = js_div (js_mul height (js_sub factor (Fin 1))) (Fin 2)
      in \<lparr>xmin = js_sub (xmin this) expandWidth,
          ymin = js_sub (ymin this) expandHeight,
          xmax = js_add (xmax this) expandWidth,
          ymax = js_add (ymax this) expandHeight,
          spatialReference = spatialReference this\<rparr>)"

section \<open>Loading a document\<close>

text \<open>
  \<^verbatim>\<open>loadGeoJSON\<close> builds the list \<^verbatim>\<open>graphics\<close> and the box \<^verbatim>\<open>bounds\<close>, gives the
  list to a new layer titled with the file name, and calls \<^verbatim>\<open>view.goTo\<close> on the
  expanded box when there is a box. The result records these; the registry of loaded
  layers and its time-based key are not part of the model. An exception thrown while a
  feature is processed leaves the \<^verbatim>\<open>forEach\<close> and the function before the layer gets
  its graphics: the result is then the exception alone.
\<close>

record import_result =
  layer_title :: string
  graphics :: "graphic list"
  bounds :: "bbox option"
  goTo :: "bbox option"

text \<open>The body of the \<^verbatim>\<open>forEach\<close> callback, on the pair of \<^verbatim>\<open>graphics\<close> and
  \<^verbatim>\<open>bounds\<close>, and the \<^verbatim>\<open>forEach\<close> itself, which stops at the first exception.\<close>

definition process_feature ::
  "(real \<Rightarrow> string) \<Rightarrow> feature \<Rightarrow> graphic list \<times> bbox option \<Rightarrow>
     error + graphic list \<times> bbox option" where
  "process_feature numToString feature acc =
     (case createGraphicFromGeoJSON numToString feature of
        Inl e \<Rightarrow> Inl e
      | Inr None \<Rightarrow> Inr acc
      | Inr (Some g) \<Rightarrow> Inr (fst acc @ [g], updateBounds (snd acc) (Some (geometry g))))"

fun process_features ::
  "(real \<Rightarrow> string) \<Rightarrow> feature list \<Rightarrow> graphic list \<times> bbox option \<Rightarrow>
     error + graphic list \<times> bbox option" where
  "process_features numToString [] acc = Inr acc"
| "process_features numToString (feature # features) acc =
     (case process_feature numToString feature acc of
        Inl e \<Rightarrow> Inl e
      | Inr acc' \<Rightarrow> process_features numToString features acc')"

definition loadGeoJSON ::
  "(real \<Rightarrow> string) \<Rightarrow> geojson_doc \<Rightarrow> string \<Rightarrow> error + import_result" where
  "loadGeoJSON numToString geojsonData fileName =
     (case (case geojsonData of
              FeatureCollection features \<Rightarrow> process_features numToString features ([], None)
            | Feature feature \<Rightarrow> process_feature numToString feature ([], None)
            | OtherDoc t \<Rightarrow> Inr ([], None)) of
        Inl e \<Rightarrow> Inl e
      | Inr acc \<Rightarrow>
          Inr \<lparr>layer_title = fileName, graphics = fst acc, bounds = snd acc,
               goTo = (case snd acc of None \<Rightarrow> None | Some b \<Rightarrow> Some (expand b (Fin 1.2)))\<rparr>)"

section \<open>Notions used to state the properties\<close>


fun supported :: "geojson_geom \<Rightarrow> bool" where
  "supported (OtherType t) = False"
| "supported g = True"

text \<open>A feature has a geometry when the member is not \<^verbatim>\<open>null\<close>. The graphic of a
  feature is the one \<^verbatim>\<open>createGraphicFromGeoJSON\<close> returns, if it returns one.\<close>

definition has_geometry :: "feature \<Rightarrow> bool" where
  "has_geometry f = (f_geometry f \<noteq> None)"

definition graphic_of :: "(real \<Rightarrow> string) \<Rightarrow> feature \<Rightarrow> graphic option" where
  "graphic_of numToString f =
     (case createGraphicFromGeoJSON numToString f of Inl e \<Rightarrow> None | Inr g \<Rightarrow> g)"

text \<open>The positions of a GeoJSON geometry in document order, and the longitude and
  latitude that the code reads from a position (\<^verbatim>\<open>c[0]\<close> and \<^verbatim>\<open>c[1]\<close>).\<close>

fun geojson_positions :: "geojson_geom \<Rightarrow> position list" where
  "geojson_positions (Point c) = [c]"
| "geojson_positions (LineString cs) = cs"
| "geojson_positions (Polygon rs) = concat rs"
| "geojson_positions (MultiPoint cs) = cs"
| "geojson_positions (MultiLineString ps) = concat ps"
| "geojson_positions (MultiPolygon ps) = concat (concat ps)"
| "geojson_positions (OtherType t) = []"

definition lonlat :: "position \<Rightarrow> jsval \<times> jsval" where
  "lonlat c = (idx c 0, idx c 1)"

text \<open>The longitude/latitude pairs of a converted geometry, in the order of its
  arrays.\<close>

fun arcgis_lonlats :: "arcgis_geom \<Rightarrow> (jsval \<times> jsval) list" where
  "arcgis_lonlats (point lon lat) = [(lon, lat)]"
| "arcgis_lonlats (polyline ps) = map lonlat (concat ps)"
| "arcgis_lonlats (polygon rs) = map lonlat (concat rs)"
| "arcgis_lonlats (multipoint cs) = map lonlat cs"

text \<open>The position arrays that a converted geometry holds, in order; a point holds
  none, its longitude and latitude are fields.\<close>

fun arcgis_positions :: "arcgis_geom \<Rightarrow> position list" where
  "arcgis_positions (point lon lat) = []"
| "arcgis_positions (polyline ps) = concat ps"
| "arcgis_positions (polygon rs) = concat rs"
| "arcgis_positions (multipoint cs) = cs"

text \<open>Width and height of a box as \<^verbatim>\<open>expand\<close> computes them, and the test that a box
  contains a position, with the comparison of the language.\<close>

definition box_width :: "bbox \<Rightarrow> jsval" where
  "box_width b = js_sub (xmax b) (xmin b)"

definition box_height :: "bbox \<Rightarrow> jsval" where
  "box_height b = js_sub (ymax b) (ymin b)"

definition covers :: "bbox \<Rightarrow> position \<Rightarrow> bool" where
  "covers b c = (js_le (xmin b) (idx c 0) \<and> js_le (idx c 0) (xmax b) \<and>
                 js_le (ymin b) (idx c 1) \<and> js_le (idx c 1) (ymax b))"

text \<open>Geometries on which \<^verbatim>\<open>updateBounds\<close> has numbers to work with: a point with a
  longitude and a latitude, and a polyline or polygon with at least one position, each
  position with a longitude and a latitude. A box is ordered when its four fields are
  finite numbers with \<open>xmin \<le> xmax\<close> and \<open>ymin \<le> ymax\<close>.\<close>

fun is_Fin :: "jsval \<Rightarrow> bool" where
  "is_Fin (Fin r) = True"
| "is_Fin v = False"

definition located :: "position list \<Rightarrow> bool" where
  "located coords = (coords \<noteq> [] \<and> list_all (\<lambda>c. 2 \<le> length c) coords)"

fun measured :: "arcgis_geom \<Rightarrow> bool" where
  "measured (point lon lat) = (is_Fin lon \<and> is_Fin lat)"
| "measured (polyline ps) = located (concat ps)"
| "measured (polygon rs) = located (concat rs)"
| "measured (multipoint cs) = False"

definition ordered_box :: "bbox \<Rightarrow> bool" where
  "ordered_box b = (is_Fin (xmin b) \<and> is_Fin (ymin b) \<and> is_Fin (xmax b) \<and> is_Fin (ymax b) \<and>
                    js_le (xmin b) (xmax b) \<and> js_le (ymin b) (ymax b))"

section \<open>Geometry conversion: properties\<close>

text \<open>
  C1. For a geometry of one of the six supported types the conversion returns a geometry,
  and the longitude/latitude pairs of that geometry are those of the input's positions,
  as many and in the same order. For every type but Point the position arrays themselves
  are carried over unchanged.
\<close>

theorem convert_preserves_coordinates:
  assumes "supported g"
  shows "\<exists>a. convertGeoJSONGeometry g = Some a \<and>
             length (arcgis_lonlats a) = length (geojson_positions g) \<and>
             arcgis_lonlats a = map lonlat (geojson_positions g) \<and>
             ((\<forall>c. g \<noteq> Point c) \<longrightarrow> arcgis_positions a = geojson_positions g)"
  using assms by (cases g) (simp_all add: lonlat_def)

theorem convert_preserves_coordinates_witness:
  "supported (MultiLineString [[[1, 2], [3, 4]], [[5, 6, 70], [7, 8]]]) \<and>
   (\<exists>a. convertGeoJSONGeometry (MultiLineString [[[1, 2], [3, 4]], [[5, 6, 70], [7, 8]]]) = Some a \<and>
        length (arcgis_lonlats a) = 4 \<and>
        arcgis_lonlats a = [(Fin 1, Fin 2), (Fin 3, Fin 4), (Fin 5, Fin 6), (Fin 7, Fin 8)] \<and>
        arcgis_positions a = [[1, 2], [3, 4], [5, 6, 70], [7, 8]])"
  using convert_preserves_coordinates [of "MultiLineString [[[1, 2], [3, 4]], [[5, 6, 70], [7, 8]]]"]
  by (simp add: lonlat_def idx_def)

text \<open>
  C7. A MultiPolygon becomes one polygon whose rings are the rings of all its polygons,
  concatenated in order.
\<close>

theorem convert_MultiPolygon_flattens_rings:
  "convertGeoJSONGeometry (MultiPolygon polys) = Some (polygon (concat polys))"
  by simp

section \<open>Unsupported geometries and the dispatch of the loader\<close>





text \<open>A feature with a geometry returns from \<^verbatim>\<open>createGraphicFromGeoJSON\<close>; one without
  throws.\<close>

lemma createGraphic_has_geometry:
  assumes "has_geometry f"
  shows "createGraphicFromGeoJSON ns f = Inr (graphic_of ns f)"
  using assms
  by (auto simp: has_geometry_def graphic_of_def createGraphicFromGeoJSON_def
      split: option.splits)

lemma createGraphic_null_geometry:
  assumes "\<not> has_geometry f"
  shows "createGraphicFromGeoJSON ns f = Inl TypeError"
  using assms by (simp add: has_geometry_def createGraphicFromGeoJSON_def)

text \<open>The loop over features that all have a geometry: every feature is visited, the
  graphics of those that convert are appended in order and their geometries folded into
  the box.\<close>

lemma process_features_loaded:
  assumes "list_all has_geometry fs"
  shows "process_features ns fs (gs, b) =
           Inr (gs @ List.map_filter (graphic_of ns) fs,
                fold (\<lambda>g b. updateBounds b (Some (geometry g)))
                  (List.map_filter (graphic_of ns) fs) b)"
  using assms
proof (induction fs arbitrary: gs b)
  case Nil
  then show ?case by simp
next
  case (Cons f fs)
  then have f: "createGraphicFromGeoJSON ns f = Inr (graphic_of ns f)"
    and fs: "list_all has_geometry fs"
    by (simp_all add: createGraphic_has_geometry)
  show ?case
    by (cases "graphic_of ns f") (simp_all add: process_feature_def f Cons.IH [OF fs])
qed

text \<open>The loop over features one of which has no geometry: the exception.\<close>

lemma process_features_null_geometry:
  assumes "\<not> list_all has_geometry fs"
  shows "process_features ns fs acc = Inl TypeError"
  using assms
proof (induction fs arbitrary: acc)
  case Nil
  then show ?case by simp
next
  case (Cons f fs)
  show ?case
  proof (cases "has_geometry f")
    case False
    then show ?thesis
      by (simp add: process_feature_def createGraphic_null_geometry)
  next
    case True
    then have "\<not> list_all has_geometry fs" using Cons.prems by simp
    then have rest: "process_features ns fs acc' = Inl TypeError" for acc'
      by (rule Cons.IH)
    have "\<exists>acc'. process_feature ns f acc = Inr acc'"
      by (cases "graphic_of ns f")
        (simp_all add: process_feature_def createGraphic_has_geometry [OF True])
    then show ?thesis
      using rest by auto
  qed
qed

lemma loadGeoJSON_collection_loaded:
  assumes "list_all has_geometry fs"
  shows "loadGeoJSON ns (FeatureCollection fs) fileName =
           Inr \<lparr>layer_title = fileName,
                graphics = List.map_filter (graphic_of ns) fs,
                bounds = fold (\<lambda>g b. updateBounds b (Some (geometry g)))
                           (List.map_filter (graphic_of ns) fs) None,
                goTo = map_option (\<lambda>b. expand b (Fin 1.2))
                         (fold (\<lambda>g b. updateBounds b (Some (geometry g)))
                           (List.map_filter (graphic_of ns) fs) None)\<rparr>"
  by (simp add: loadGeoJSON_def process_features_loaded [OF assms] split: option.splits)



text \<open>
  C9, as the code has it. The loader dispatches on the top-level type. For a
  FeatureCollection whose features all have a geometry, every feature is processed: the
  graphics are those of all the features that convert, in order, the box is the fold of
  \<^verbatim>\<open>updateBounds\<close> over their geometries, and \<^verbatim>\<open>goTo\<close> gets the expanded box. When a
  feature has a \<^verbatim>\<open>null\<close> geometry the import throws a \<^verbatim>\<open>TypeError\<close> and produces
  nothing. A Feature loads as the collection of that one feature. Any other document
  gives no graphic, no box and no call of \<^verbatim>\<open>goTo\<close>.
\<close>

theorem loadGeoJSON_dispatch:
  "(list_all has_geometry fs \<longrightarrow>
      loadGeoJSON ns (FeatureCollection fs) fileName =
        Inr \<lparr>layer_title = fileName,
             graphics = List.map_filter (graphic_of ns) fs,
             bounds = fold (\<lambda>g b. updateBounds b (Some (geometry g)))
                        (List.map_filter (graphic_of ns) fs) None,
             goTo = map_option (\<lambda>b. expand b (Fin 1.2))
                      (fold (\<lambda>g b. updateBounds b (Some (geometry g)))
                        (List.map_filter (graphic_of ns) fs) None)\<rparr>) \<and>
   (\<not> list_all has_geometry fs \<longrightarrow>
      loadGeoJSON ns (FeatureCollection fs) fileName = Inl TypeError) \<and>
   loadGeoJSON ns (Feature f) fileName = loadGeoJSON ns (FeatureCollection [f]) fileName \<and>
   loadGeoJSON ns (OtherDoc t) fileName =
     Inr \<lparr>layer_title = fileName, graphics = [], bounds = None, goTo = None\<rparr>"
proof -
  have "loadGeoJSON ns (FeatureCollection fs) fileName = Inl TypeError"
    if "\<not> list_all has_geometry fs"
    by (simp add: loadGeoJSON_def process_features_null_geometry [OF that])
  moreover have "loadGeoJSON ns (Feature f) fileName =
                 loadGeoJSON ns (FeatureCollection [f]) fileName"
    by (simp add: loadGeoJSON_def split: sum.splits)
  moreover have "loadGeoJSON ns (OtherDoc t) fileName =
                 Inr \<lparr>layer_title = fileName, graphics = [], bounds = None, goTo = None\<rparr>"
    by (simp add: loadGeoJSON_def)
  ultimately show ?thesis
    using loadGeoJSON_collection_loaded [of fs ns fileName] by blast
qed

theorem loadGeoJSON_dispatch_witness:
  "list_all has_geometry
     [\<lparr>f_geometry = Some (LineString [[0, 5], [3, 1]]), f_properties = None\<rparr>,
      \<lparr>f_geometry = Some (Point [1, 2]), f_properties = None\<rparr>] \<and>
   (\<exists>r. loadGeoJSON (\<lambda>x. [])
          (FeatureCollection
            [\<lparr>f_geometry = Some (LineString [[0, 5], [3, 1]]), f_properties = None\<rparr>,
             \<lparr>f_geometry = Some (Point [1, 2]), f_properties = None\<rparr>])
          ''line-and-point.geojson'' = Inr r \<and>
        map geometry (graphics r) = [polyline [[[0, 5], [3, 1]]], point (Fin 1) (Fin 2)] \<and>
        bounds r = Some \<lparr>xmin = Fin 0, ymin = Fin 1, xmax = Fin 3, ymax = Fin 5,
                          spatialReference = 4326\<rparr>)"
  using loadGeoJSON_dispatch
    [of "[\<lparr>f_geometry = Some (LineString [[0, 5], [3, 1]]), f_properties = None\<rparr>,
          \<lparr>f_geometry = Some (Point [1, 2]), f_properties = None\<rparr>]"
        "\<lambda>x. []" "''line-and-point.geojson''"]
  by (auto simp: has_geometry_def graphic_of_def createGraphicFromGeoJSON_def
      updateBounds_def Math_min_def Math_max_def min2_def max2_def ToNumber_def idx_def)

text \<open>
  C9 as stated fails: in a FeatureCollection whose first feature has a \<^verbatim>\<open>null\<close>
  geometry and whose second is a Point, the import throws at the first feature; the
  Point, which alone gives a graphic, is not processed and no result is produced.
\<close>

theorem null_geometry_aborts_import:
  "loadGeoJSON (\<lambda>x. [])
     (FeatureCollection
       [\<lparr>f_geometry = None, f_properties = None\<rparr>,
        \<lparr>f_geometry = Some (Point [7, 2]), f_properties = None\<rparr>])
     ''unlocated.geojson'' = Inl TypeError \<and>
   (\<exists>r. loadGeoJSON (\<lambda>x. [])
          (FeatureCollection [\<lparr>f_geometry = Some (Point [7, 2]), f_properties = None\<rparr>])
          ''unlocated.geojson'' = Inr r \<and>
        map geometry (graphics r) = [point (Fin 7) (Fin 2)])"
  by (simp add: loadGeoJSON_def process_feature_def createGraphicFromGeoJSON_def idx_def)

section \<open>Popup content: properties\<close>

lemma array_join_contains:
  assumes "s \<in> set ss"
  shows "\<exists>pre suf. array_join sep ss = pre @ s @ suf"
  using assms
proof (induction sep ss rule: array_join.induct)
  case (1 sep)
  then show ?case by simp
next
  case (2 sep s')
  then have "array_join sep [s'] = [] @ s @ []" by simp
  then show ?case by blast
next
  case (3 sep s' t ss)
  show ?case
  proof (cases "s = s'")
    case True
    then have "array_join sep (s' # t # ss) = [] @ s @ (sep @ array_join sep (t # ss))"
      by simp
    then show ?thesis by blast
  next
    case False
    then have "s \<in> set (t # ss)" using "3.prems" by simp
    then obtain pre suf where "array_join sep (t # ss) = pre @ s @ suf"
      using "3.IH" by blast
    then have "array_join sep (s' # t # ss) = (s' @ sep @ pre) @ s @ suf"
      by simp
    then show ?thesis by blast
  qed
qed


text \<open>
  C5, as the code has it. Without properties, or with an empty object, the popup is the
  placeholder. Otherwise the title is the value of \<^verbatim>\<open>name\<close> when that value is truthy,
  else the value of \<^verbatim>\<open>title\<close> when that one is truthy, else the literal "Feature"
  (an absent key reads as \<^verbatim>\<open>undefined\<close>, which is not truthy); the content is the lines
  \<^verbatim>\<open><b>key:</b> value\<close> of all entries in their order, joined with \<^verbatim>\<open><br>\<close>, so that
  the line of every entry occurs in it.
\<close>

theorem createPopupTemplate_title_and_content:
  "createPopupTemplate ns None =
     \<lparr>title = JString ''Feature'', content = ''No properties available''\<rparr> \<and>
   createPopupTemplate ns (Some []) =
     \<lparr>title = JString ''Feature'', content = ''No properties available''\<rparr> \<and>
   (ps \<noteq> [] \<longrightarrow>
      title (createPopupTemplate ns (Some ps)) =
        (if truthy (get_prop ps ''name'') then get_prop ps ''name''
         else if truthy (get_prop ps ''title'') then get_prop ps ''title''
         else JString ''Feature'') \<and>
      content (createPopupTemplate ns (Some ps)) =
        array_join ''<br>'' (map (property_line ns) ps) \<and>
      (\<forall>e\<in>set ps. \<exists>pre suf. content (createPopupTemplate ns (Some ps)) =
         pre @ ''<b>'' @ fst e @ '':</b> '' @ ToString ns (snd e) @ suf))"
proof -
  have "\<exists>pre suf. array_join ''<br>'' (map (property_line ns) ps) =
          pre @ ''<b>'' @ fst e @ '':</b> '' @ ToString ns (snd e) @ suf" if "e \<in> set ps" for e
  proof -
    have "property_line ns e \<in> set (map (property_line ns) ps)"
      using that by simp
    from array_join_contains [OF this, of "''<br>''"] show ?thesis
      by (simp add: property_line_def)
  qed
  then show ?thesis
    by (simp add: createPopupTemplate_def js_or_def)
qed

theorem createPopupTemplate_title_and_content_witness:
  "[(''name'', JString ''A''), (''foo'', JString ''bar'')] \<noteq> [] \<and>
   title (createPopupTemplate (\<lambda>r. []) (Some [(''name'', JString ''A''), (''foo'', JString ''bar'')]))
     = JString ''A'' \<and>
   content (createPopupTemplate (\<lambda>r. []) (Some [(''name'', JString ''A''), (''foo'', JString ''bar'')]))
     = ''<b>name:</b> A<br><b>foo:</b> bar''"
  using createPopupTemplate_title_and_content
    [of "\<lambda>r. []" "[(''name'', JString ''A''), (''foo'', JString ''bar'')]"]
  by (simp add: get_prop_def property_line_def)


text \<open>
  C5 as stated fails: with \<^verbatim>\<open>name\<close> present but bound to the empty string, the title
  is not the value of \<^verbatim>\<open>name\<close> but that of \<^verbatim>\<open>title\<close>.
\<close>

theorem present_falsy_name_is_not_the_title:
  "map_of [(''name'', JString ''''), (''title'', JString ''Well 7'')] ''name'' = Some (JString '''') \<and>
   title (createPopupTemplate (\<lambda>r. [])
     (Some [(''name'', JString ''''), (''title'', JString ''Well 7'')])) = JString ''Well 7''"
  by (simp add: createPopupTemplate_def js_or_def get_prop_def)

text \<open>
  C10. When the key \<^verbatim>\<open>name\<close> is bound to the empty string, 0, false or null and there
  is no key \<^verbatim>\<open>title\<close>, the title is the literal "Feature".
\<close>

theorem falsy_name_gives_default_title:
  assumes "map_of ps ''name'' = Some v"
    and "v \<in> {JString [], JNumber 0, JBool False, JNull}"
    and "map_of ps ''title'' = None"
  shows "title (createPopupTemplate ns (Some ps)) = JString ''Feature''"
proof -
  have "ps \<noteq> []" using assms(1) by auto
  moreover have "\<not> truthy v" using assms(2) by auto
  ultimately show ?thesis
    using assms(1,3) by (simp add: createPopupTemplate_def js_or_def get_prop_def)
qed

theorem falsy_name_gives_default_title_witness:
  "map_of [(''name'', JNumber 0), (''kind'', JString ''well'')] ''name'' = Some (JNumber 0) \<and>
   JNumber 0 \<in> {JString [], JNumber 0, JBool False, JNull} \<and>
   map_of [(''name'', JNumber 0), (''kind'', JString ''well'')] ''title'' = None \<and>
   title (createPopupTemplate (\<lambda>r. ''0'') (Some [(''name'', JNumber 0), (''kind'', JString ''well'')]))
     = JString ''Feature''"
  using falsy_name_gives_default_title
    [of "[(''name'', JNumber 0), (''kind'', JString ''well'')]" "JNumber 0" "\<lambda>r. ''0''"]
  by simp

section \<open>Bounds: properties\<close>

lemma Math_min_pair_commute: "Math_min [a, b] = Math_min [b, a]"
  by (cases a; cases b) (auto simp: Math_min_def min2_def ToNumber_def)

lemma Math_max_pair_commute: "Math_max [a, b] = Math_max [b, a]"
  by (cases a; cases b) (auto simp: Math_max_def max2_def ToNumber_def)

lemma Math_min_pair_left_commute:
  "Math_min [Math_min [x, a], c] = Math_min [Math_min [x, c], a]"
  by (cases x; cases a; cases c) (auto simp: Math_min_def min2_def ToNumber_def)

lemma Math_max_pair_left_commute:
  "Math_max [Math_max [x, a], c] = Math_max [Math_max [x, c], a]"
  by (cases x; cases a; cases c) (auto simp: Math_max_def max2_def ToNumber_def)

text \<open>Two steps of the accumulation commute, from no box as from a box.\<close>

lemma updateBounds_commute:
  "updateBounds (updateBounds b (Some g1)) (Some g2) =
   updateBounds (updateBounds b (Some g2)) (Some g1)"
proof -
  obtain a1 b1 c1 d1 where g1: "geometry_minmax g1 = (a1, b1, c1, d1)"
    by (metis prod_cases4)
  obtain a2 b2 c2 d2 where g2: "geometry_minmax g2 = (a2, b2, c2, d2)"
    by (metis prod_cases4)
  show ?thesis
  proof (cases b)
    case None
    then show ?thesis
      by (simp add: updateBounds_def g1 g2 Math_min_pair_commute [of a1 a2]
          Math_min_pair_commute [of b1 b2] Math_max_pair_commute [of c1 c2]
          Math_max_pair_commute [of d1 d2])
  next
    case (Some box)
    then show ?thesis
      by (simp add: updateBounds_def g1 g2 Math_min_pair_left_commute [of _ a1 a2]
          Math_min_pair_left_commute [of _ b1 b2] Math_max_pair_left_commute [of _ c1 c2]
          Math_max_pair_left_commute [of _ d1 d2])
  qed
qed

text \<open>
  C8. Folding \<^verbatim>\<open>updateBounds\<close> from no box over the same converted geometries in two
  different orders gives the same box, in all five fields.
\<close>

theorem bounds_order_independent:
  assumes "mset gs = mset gs'"
  shows "fold (\<lambda>g b. updateBounds b (Some g)) gs None =
         fold (\<lambda>g b. updateBounds b (Some g)) gs' None"
proof -
  have "fold (\<lambda>g b. updateBounds b (Some g)) gs = fold (\<lambda>g b. updateBounds b (Some g)) gs'"
    by (rule fold_multiset_equiv) (auto simp: fun_eq_iff updateBounds_commute assms)
  then show ?thesis by simp
qed

theorem bounds_order_independent_witness:
  "mset [point (Fin 1) (Fin 2), polyline [[[0, 5], [3, 1]]]] =
   mset [polyline [[[0, 5], [3, 1]]], point (Fin 1) (Fin 2)] \<and>
   fold (\<lambda>g b. updateBounds b (Some g))
     [point (Fin 1) (Fin 2), polyline [[[0, 5], [3, 1]]]] None =
   fold (\<lambda>g b. updateBounds b (Some g))
     [polyline [[[0, 5], [3, 1]]], point (Fin 1) (Fin 2)] None \<and>
   fold (\<lambda>g b. updateBounds b (Some g))
     [polyline [[[0, 5], [3, 1]]], point (Fin 1) (Fin 2)] None =
   Some \<lparr>xmin = Fin 0, ymin = Fin 1, xmax = Fin 3, ymax = Fin 5, spatialReference = 4326\<rparr>"
  using bounds_order_independent
    [of "[point (Fin 1) (Fin 2), polyline [[[0, 5], [3, 1]]]]"
        "[polyline [[[0, 5], [3, 1]]], point (Fin 1) (Fin 2)]"]
  by (simp add: updateBounds_def Math_min_def Math_max_def min2_def max2_def ToNumber_def idx_def)

text \<open>\<^verbatim>\<open>Math.min\<close> and \<^verbatim>\<open>Math.max\<close> over finite numbers: a bound of every argument.\<close>

lemma foldl_min2_Fin:
  "\<exists>m. foldl min2 (Fin a) (map Fin xs) = Fin m \<and> m \<le> a \<and> (\<forall>x\<in>set xs. m \<le> x)"
proof (induction xs arbitrary: a)
  case Nil
  then show ?case by simp
next
  case (Cons x xs)
  have step: "min2 (Fin a) (Fin x) = Fin (min a x)"
    by (simp add: min2_def min_def)
  obtain m where "foldl min2 (Fin (min a x)) (map Fin xs) = Fin m" "m \<le> min a x"
    "\<forall>y\<in>set xs. m \<le> y"
    using Cons.IH [of "min a x"] by blast
  then show ?case by (auto simp: step)
qed

lemma foldl_max2_Fin:
  "\<exists>m. foldl max2 (Fin a) (map Fin xs) = Fin m \<and> a \<le> m \<and> (\<forall>x\<in>set xs. x \<le> m)"
proof (induction xs arbitrary: a)
  case Nil
  then show ?case by simp
next
  case (Cons x xs)
  have step: "max2 (Fin a) (Fin x) = Fin (max a x)"
    by (simp add: max2_def max_def)
  obtain m where "foldl max2 (Fin (max a x)) (map Fin xs) = Fin m" "max a x \<le> m"
    "\<forall>y\<in>set xs. y \<le> m"
    using Cons.IH [of "max a x"] by blast
  then show ?case by (auto simp: step)
qed

lemma map_ToNumber_Fin: "map ToNumber (map Fin xs) = map Fin xs"
  by (simp add: ToNumber_def)

lemma Math_min_Fin:
  "Math_min (map Fin xs) = PosInf \<and> xs = [] \<or>
   (\<exists>m. Math_min (map Fin xs) = Fin m \<and> (\<forall>x\<in>set xs. m \<le> x))"
proof (cases xs)
  case Nil
  then show ?thesis by (simp add: Math_min_def)
next
  case (Cons a as)
  have "min2 PosInf (Fin a) = Fin a" by (simp add: min2_def)
  then have "Math_min (map Fin xs) = foldl min2 (Fin a) (map Fin as)"
    unfolding Math_min_def map_ToNumber_Fin by (simp add: Cons)
  then show ?thesis using foldl_min2_Fin [of a as] Cons by auto
qed

lemma Math_max_Fin:
  "Math_max (map Fin xs) = NegInf \<and> xs = [] \<or>
   (\<exists>m. Math_max (map Fin xs) = Fin m \<and> (\<forall>x\<in>set xs. x \<le> m))"
proof (cases xs)
  case Nil
  then show ?thesis by (simp add: Math_max_def)
next
  case (Cons a as)
  have "max2 NegInf (Fin a) = Fin a" by (simp add: max2_def)
  then have "Math_max (map Fin xs) = foldl max2 (Fin a) (map Fin as)"
    unfolding Math_max_def map_ToNumber_Fin by (simp add: Cons)
  then show ?thesis using foldl_max2_Fin [of a as] Cons by auto
qed

lemma idx_coords:
  assumes "\<forall>c\<in>set coords. i < length c"
  shows "map (\<lambda>c. idx c i) coords = map Fin (map (\<lambda>c. c ! i) coords)"
  using assms by (simp add: idx_def)

text \<open>Merging a finite number with the minimum, or the maximum, of one column of a
  list of positions.\<close>

lemma merge_min_lower:
  assumes "\<forall>c\<in>set coords. i < length c"
  shows "\<exists>r. Math_min [Fin x, Math_min (map (\<lambda>c. idx c i) coords)] = Fin r \<and> r \<le> x \<and>
             (\<forall>p\<in>set coords. r \<le> p ! i)"
proof -
  let ?col = "map (\<lambda>c. c ! i) coords"
  have eq: "map (\<lambda>c. idx c i) coords = map Fin ?col"
    by (rule idx_coords [OF assms])
  from Math_min_Fin [of ?col] show ?thesis
  proof
    assume "Math_min (map Fin ?col) = PosInf \<and> ?col = []"
    then show ?thesis
      by (simp add: eq) (simp add: Math_min_def min2_def ToNumber_def)
  next
    assume "\<exists>m. Math_min (map Fin ?col) = Fin m \<and> (\<forall>v\<in>set ?col. m \<le> v)"
    then obtain m where m: "Math_min (map Fin ?col) = Fin m" "\<forall>v\<in>set ?col. m \<le> v"
      by blast
    have "Math_min [Fin x, Fin m] = Fin (min x m)"
      by (simp add: Math_min_def min2_def ToNumber_def min_def)
    then show ?thesis using m by (auto simp: eq)
  qed
qed

lemma merge_max_upper:
  assumes "\<forall>c\<in>set coords. i < length c"
  shows "\<exists>r. Math_max [Fin x, Math_max (map (\<lambda>c. idx c i) coords)] = Fin r \<and> x \<le> r \<and>
             (\<forall>p\<in>set coords. p ! i \<le> r)"
proof -
  let ?col = "map (\<lambda>c. c ! i) coords"
  have eq: "map (\<lambda>c. idx c i) coords = map Fin ?col"
    by (rule idx_coords [OF assms])
  from Math_max_Fin [of ?col] show ?thesis
  proof
    assume "Math_max (map Fin ?col) = NegInf \<and> ?col = []"
    then show ?thesis
      by (simp add: eq) (simp add: Math_max_def max2_def ToNumber_def)
  next
    assume "\<exists>m. Math_max (map Fin ?col) = Fin m \<and> (\<forall>v\<in>set ?col. v \<le> m)"
    then obtain m where m: "Math_max (map Fin ?col) = Fin m" "\<forall>v\<in>set ?col. v \<le> m"
      by blast
    have "Math_max [Fin x, Fin m] = Fin (max x m)"
      by (simp add: Math_max_def max2_def ToNumber_def max_def)
    then show ?thesis using m by (auto simp: eq)
  qed
qed

text \<open>The box of a point followed by a polygon.\<close>

lemma point_polygon_box_covers:
  assumes c: "2 \<le> length c" and rs: "\<forall>p\<in>set (concat rs). 2 \<le> length p"
  shows "\<exists>b. updateBounds (updateBounds None (Some (point (idx c 0) (idx c 1))))
                (Some (polygon rs)) = Some b \<and>
             covers b c \<and> (\<forall>p\<in>set (concat rs). covers b p)"
proof -
  have l0: "\<forall>p\<in>set (concat rs). 0 < length p" and l1: "\<forall>p\<in>set (concat rs). 1 < length p"
    using rs by (auto simp del: set_concat)
  have ic: "idx c 0 = Fin (c ! 0)" "idx c 1 = Fin (c ! 1)"
    using c by (auto simp: idx_def)
  have ip: "\<forall>p\<in>set (concat rs). idx p 0 = Fin (p ! 0) \<and> idx p 1 = Fin (p ! 1)"
    using rs by (auto simp: idx_def simp del: set_concat)
  obtain x0 where x0: "Math_min [Fin (c ! 0), Math_min (map (\<lambda>c. idx c 0) (concat rs))] = Fin x0"
    "x0 \<le> c ! 0" "\<forall>p\<in>set (concat rs). x0 \<le> p ! 0"
    using merge_min_lower [OF l0] by blast
  obtain y0 where y0: "Math_min [Fin (c ! 1), Math_min (map (\<lambda>c. idx c 1) (concat rs))] = Fin y0"
    "y0 \<le> c ! 1" "\<forall>p\<in>set (concat rs). y0 \<le> p ! 1"
    using merge_min_lower [OF l1] by blast
  obtain x1 where x1: "Math_max [Fin (c ! 0), Math_max (map (\<lambda>c. idx c 0) (concat rs))] = Fin x1"
    "c ! 0 \<le> x1" "\<forall>p\<in>set (concat rs). p ! 0 \<le> x1"
    using merge_max_upper [OF l0] by blast
  obtain y1 where y1: "Math_max [Fin (c ! 1), Math_max (map (\<lambda>c. idx c 1) (concat rs))] = Fin y1"
    "c ! 1 \<le> y1" "\<forall>p\<in>set (concat rs). p ! 1 \<le> y1"
    using merge_max_upper [OF l1] by blast
  let ?b = "\<lparr>xmin = Fin x0, ymin = Fin y0, xmax = Fin x1, ymax = Fin y1, spatialReference = 4326\<rparr>"
  have "updateBounds (updateBounds None (Some (point (idx c 0) (idx c 1))))
          (Some (polygon rs)) = Some ?b"
    by (simp add: updateBounds_def Let_def ic x0(1) y0(1) x1(1) y1(1) del: One_nat_def)
  moreover have "covers ?b c"
    by (simp add: covers_def ic x0(2) y0(2) x1(2) y1(2) del: One_nat_def)
  moreover have "\<forall>p\<in>set (concat rs). covers ?b p"
    using ip x0(3) y0(3) x1(3) y1(3) by (simp add: covers_def del: One_nat_def)
  ultimately show ?thesis by blast
qed

text \<open>
  C2. A FeatureCollection of one Point feature and one Polygon feature, in either order,
  whose positions all have a longitude and a latitude, loads as exactly two graphics, and
  the box of the import contains the point and every vertex of the polygon.
\<close>

theorem point_and_polygon_import:
  assumes "f_geometry fp = Some (Point c)" and "2 \<le> length c"
    and "f_geometry fg = Some (Polygon rs)" and "\<forall>p\<in>set (concat rs). 2 \<le> length p"
    and "fs = [fp, fg] \<or> fs = [fg, fp]"
  shows "\<exists>r. loadGeoJSON ns (FeatureCollection fs) fileName = Inr r \<and>
             length (graphics r) = 2 \<and>
             (\<exists>b. bounds r = Some b \<and> covers b c \<and> (\<forall>p\<in>set (concat rs). covers b p))"
proof -
  obtain gp where gp: "graphic_of ns fp = Some gp" "geometry gp = point (idx c 0) (idx c 1)"
    by (simp add: graphic_of_def createGraphicFromGeoJSON_def assms(1))
  obtain gg where gg: "graphic_of ns fg = Some gg" "geometry gg = polygon rs"
    by (simp add: graphic_of_def createGraphicFromGeoJSON_def assms(3))
  have geo: "list_all has_geometry fs"
    using assms(1,3,5) by (auto simp: has_geometry_def)
  obtain b where b: "updateBounds (updateBounds None (Some (point (idx c 0) (idx c 1))))
                (Some (polygon rs)) = Some b" "covers b c" "\<forall>p\<in>set (concat rs). covers b p"
    using point_polygon_box_covers [OF assms(2) assms(4)] by blast
  let ?r = "\<lparr>layer_title = fileName,
             graphics = List.map_filter (graphic_of ns) fs,
             bounds = fold (\<lambda>g b. updateBounds b (Some (geometry g)))
                        (List.map_filter (graphic_of ns) fs) None,
             goTo = map_option (\<lambda>b. expand b (Fin 1.2))
                      (fold (\<lambda>g b. updateBounds b (Some (geometry g)))
                        (List.map_filter (graphic_of ns) fs) None)\<rparr>"
  have r: "loadGeoJSON ns (FeatureCollection fs) fileName = Inr ?r"
    by (rule loadGeoJSON_collection_loaded [OF geo])
  from assms(5) have "length (graphics ?r) = 2 \<and> bounds ?r = Some b"
  proof
    assume "fs = [fp, fg]"
    then show ?thesis using gp gg b(1) by simp
  next
    assume "fs = [fg, fp]"
    then show ?thesis
      using gp gg b(1) updateBounds_commute [of None "polygon rs" "point (idx c 0) (idx c 1)"]
      by simp
  qed
  then show ?thesis using r b(2,3) by blast
qed

theorem point_and_polygon_import_witness:
  "\<exists>r. loadGeoJSON (\<lambda>x. [])
     (FeatureCollection
       [\<lparr>f_geometry = Some (Polygon [[[0, 0], [4, 0], [4, 5], [0, 0]]]), f_properties = None\<rparr>,
        \<lparr>f_geometry = Some (Point [7, 2]), f_properties = None\<rparr>]) ''two.geojson'' = Inr r \<and>
      length (graphics r) = 2 \<and>
      (\<exists>b. bounds r = Some b \<and>
        covers b [7, 2] \<and> covers b [0, 0] \<and> covers b [4, 0] \<and> covers b [4, 5])"
  using point_and_polygon_import
    [of "\<lparr>f_geometry = Some (Point [7, 2]), f_properties = None\<rparr>" "[7, 2]"
        "\<lparr>f_geometry = Some (Polygon [[[0, 0], [4, 0], [4, 5], [0, 0]]]), f_properties = None\<rparr>"
        "[[[0, 0], [4, 0], [4, 5], [0, 0]]]"
        "[\<lparr>f_geometry = Some (Polygon [[[0, 0], [4, 0], [4, 5], [0, 0]]]), f_properties = None\<rparr>,
          \<lparr>f_geometry = Some (Point [7, 2]), f_properties = None\<rparr>]"
        "\<lambda>x. []" "''two.geojson''"]
  by auto

text \<open>
  C3 at a MultiPoint. \<^verbatim>\<open>updateBounds\<close> has no branch for the \<^verbatim>\<open>multipoint\<close> geometry
  that the conversion produces, so the box of a MultiPoint feature has four undefined
  fields, \<^verbatim>\<open>xmin <= xmax\<close> and \<^verbatim>\<open>ymin <= ymax\<close> are false on it, and the extent
  passed to \<^verbatim>\<open>view.goTo\<close> is \<^verbatim>\<open>NaN\<close> in all four.
\<close>

theorem multipoint_bounds_undefined:
  "fold (\<lambda>g b. updateBounds b g) [convertGeoJSONGeometry (MultiPoint [[1, 2], [3, 4]])] None =
     Some \<lparr>xmin = Undefined, ymin = Undefined, xmax = Undefined, ymax = Undefined,
           spatialReference = 4326\<rparr> \<and>
   \<not> js_le Undefined Undefined \<and>
   (\<exists>r. loadGeoJSON (\<lambda>x. []) (Feature \<lparr>f_geometry = Some (MultiPoint [[1, 2], [3, 4]]),
           f_properties = None\<rparr>) ''points.geojson'' = Inr r \<and>
        bounds r = Some \<lparr>xmin = Undefined, ymin = Undefined, xmax = Undefined,
                          ymax = Undefined, spatialReference = 4326\<rparr> \<and>
        goTo r = Some \<lparr>xmin = NaN, ymin = NaN, xmax = NaN, ymax = NaN,
                        spatialReference = 4326\<rparr>)"
  by (simp add: updateBounds_def loadGeoJSON_def process_feature_def
      createGraphicFromGeoJSON_def expand_def)

text \<open>Where the invariant of the box does hold: over the branches that
  \<^verbatim>\<open>updateBounds\<close> has, on geometries with at least one full position, the fold from no
  box gives a box of finite numbers with \<open>xmin \<le> xmax\<close> and \<open>ymin \<le> ymax\<close>.\<close>

lemma is_Fin_iff: "is_Fin v \<longleftrightarrow> (\<exists>r. v = Fin r)"
  by (cases v) simp_all

lemma column_min_max:
  assumes "coords \<noteq> []" and "\<forall>c\<in>set coords. i < length c"
  shows "\<exists>lo hi. Math_min (map (\<lambda>c. idx c i) coords) = Fin lo \<and>
                 Math_max (map (\<lambda>c. idx c i) coords) = Fin hi \<and> lo \<le> hi"
proof -
  let ?col = "map (\<lambda>c. c ! i) coords"
  have eq: "map (\<lambda>c. idx c i) coords = map Fin ?col"
    by (rule idx_coords [OF assms(2)])
  have ne: "?col \<noteq> []" using assms(1) by simp
  obtain lo where lo: "Math_min (map Fin ?col) = Fin lo" "\<forall>v\<in>set ?col. lo \<le> v"
    using Math_min_Fin [of ?col] ne by blast
  obtain hi where hi: "Math_max (map Fin ?col) = Fin hi" "\<forall>v\<in>set ?col. v \<le> hi"
    using Math_max_Fin [of ?col] ne by blast
  obtain v where "v \<in> set ?col" using ne by (cases ?col) auto
  then have "lo \<le> hi" using lo(2) hi(2) by force
  then show ?thesis using lo(1) hi(1) by (simp add: eq)
qed

lemma located_minmax:
  assumes "located coords"
  shows "\<exists>x0 y0 x1 y1.
           (Math_min (map (\<lambda>c. idx c 0) coords), Math_min (map (\<lambda>c. idx c 1) coords),
            Math_max (map (\<lambda>c. idx c 0) coords), Math_max (map (\<lambda>c. idx c 1) coords)) =
           (Fin x0, Fin y0, Fin x1, Fin y1) \<and> x0 \<le> x1 \<and> y0 \<le> y1"
proof -
  have ne: "coords \<noteq> []" and l0: "\<forall>c\<in>set coords. 0 < length c"
    and l1: "\<forall>c\<in>set coords. 1 < length c"
    using assms by (auto simp: located_def list_all_iff)
  from column_min_max [OF ne l0] column_min_max [OF ne l1] show ?thesis
    by auto
qed

lemma measured_minmax:
  assumes "measured g"
  shows "\<exists>x0 y0 x1 y1. geometry_minmax g = (Fin x0, Fin y0, Fin x1, Fin y1) \<and>
           x0 \<le> x1 \<and> y0 \<le> y1"
proof (cases g)
  case (point lon lat)
  then show ?thesis using assms by (auto simp: is_Fin_iff)
next
  case (polyline ps)
  then show ?thesis using assms located_minmax [of "concat ps"]
    by (simp add: Let_def del: One_nat_def)
next
  case (polygon rs)
  then show ?thesis using assms located_minmax [of "concat rs"]
    by (simp add: Let_def del: One_nat_def)
next
  case (multipoint cs)
  then show ?thesis using assms by simp
qed

lemma updateBounds_ordered:
  assumes "measured g" and "acc = None \<or> (\<exists>b. acc = Some b \<and> ordered_box b)"
  shows "\<exists>b. updateBounds acc (Some g) = Some b \<and> ordered_box b"
proof -
  obtain x0 y0 x1 y1 where mm: "geometry_minmax g = (Fin x0, Fin y0, Fin x1, Fin y1)"
    "x0 \<le> x1" "y0 \<le> y1"
    using measured_minmax [OF assms(1)] by blast
  from assms(2) show ?thesis
  proof
    assume "acc = None"
    then show ?thesis using mm by (simp add: updateBounds_def ordered_box_def)
  next
    assume "\<exists>b. acc = Some b \<and> ordered_box b"
    then obtain b where b: "acc = Some b" "ordered_box b" by blast
    then obtain a0 b0 a1 b1 where f: "xmin b = Fin a0" "ymin b = Fin b0" "xmax b = Fin a1"
      "ymax b = Fin b1" "a0 \<le> a1" "b0 \<le> b1"
      by (auto simp: ordered_box_def is_Fin_iff)
    have mn: "Math_min [Fin u, Fin v] = Fin (min u v)" for u v
      by (simp add: Math_min_def min2_def ToNumber_def min_def)
    have mx: "Math_max [Fin u, Fin v] = Fin (max u v)" for u v
      by (simp add: Math_max_def max2_def ToNumber_def max_def)
    show ?thesis using mm f
      by (simp add: updateBounds_def b(1) ordered_box_def mn mx min_le_iff_disj le_max_iff_disj)
  qed
qed

lemma fold_updateBounds_ordered:
  assumes "list_all measured gs" and "gs \<noteq> [] \<or> (\<exists>b. acc = Some b \<and> ordered_box b)"
    and "acc = None \<or> (\<exists>b. acc = Some b \<and> ordered_box b)"
  shows "\<exists>b. fold (\<lambda>g b. updateBounds b (Some g)) gs acc = Some b \<and> ordered_box b"
  using assms
proof (induction gs arbitrary: acc)
  case Nil
  then show ?case by simp
next
  case (Cons g gs)
  then have "\<exists>b. updateBounds acc (Some g) = Some b \<and> ordered_box b"
    using updateBounds_ordered [of g acc] by simp
  moreover have "list_all measured gs" using Cons.prems(1) by simp
  ultimately show ?case using Cons.IH [of "updateBounds acc (Some g)"] by simp
qed

lemma bounds_ordered_when_measured:
  assumes "gs \<noteq> []" and "list_all measured gs"
  shows "\<exists>b. fold (\<lambda>g b. updateBounds b (Some g)) gs None = Some b \<and>
             js_le (xmin b) (xmax b) \<and> js_le (ymin b) (ymax b)"
  using fold_updateBounds_ordered [OF assms(2), of None] assms(1)
  by (auto simp: ordered_box_def)

text \<open>
  C4, as the code has it. The box of a single Point with longitude and latitude has
  \<open>xmin = xmax\<close> and \<open>ymin = ymax\<close> at the point, and \<^verbatim>\<open>expand(1.2)\<close> returns that same
  box: \<^verbatim>\<open>expand\<close> grows each side by a fraction of the width or height, which are zero.
  The expanded box is centred on the point, with width and height zero.
\<close>

theorem expand_single_point_box:
  assumes "2 \<le> length c"
  shows "\<exists>b. updateBounds None (convertGeoJSONGeometry (Point c)) = Some b \<and>
             xmin b = Fin (c ! 0) \<and> xmax b = Fin (c ! 0) \<and>
             ymin b = Fin (c ! 1) \<and> ymax b = Fin (c ! 1) \<and>
             expand b (Fin 1.2) = b \<and>
             box_width (expand b (Fin 1.2)) = Fin 0 \<and>
             box_height (expand b (Fin 1.2)) = Fin 0"
proof -
  have ic: "idx c 0 = Fin (c ! 0)" "idx c (Suc 0) = Fin (c ! Suc 0)"
    using assms by (auto simp: idx_def)
  show ?thesis
    by (simp add: updateBounds_def ic expand_def box_width_def box_height_def)
qed


theorem expand_single_point_box_witness:
  "\<exists>b. updateBounds None (convertGeoJSONGeometry (Point [3, 4])) = Some b \<and>
       xmin b = Fin 3 \<and> xmax b = Fin 3 \<and> ymin b = Fin 4 \<and> ymax b = Fin 4 \<and>
       expand b (Fin 1.2) = b \<and>
       box_width (expand b (Fin 1.2)) = Fin 0 \<and> box_height (expand b (Fin 1.2)) = Fin 0"
  using expand_single_point_box [of "[3, 4]"] by simp


text \<open>
  C4 as stated fails: the width and the height of the expanded box of the Point
  \<open>[3, 4]\<close> are not positive.
\<close>

theorem expand_single_point_box_not_positive:
  "updateBounds None (convertGeoJSONGeometry (Point [3, 4])) =
     Some \<lparr>xmin = Fin 3, ymin = Fin 4, xmax = Fin 3, ymax = Fin 4, spatialReference = 4326\<rparr> \<and>
   \<not> js_lt (Fin 0) (box_width (expand
       \<lparr>xmin = Fin 3, ymin = Fin 4, xmax = Fin 3, ymax = Fin 4, spatialReference = 4326\<rparr>
       (Fin 1.2))) \<and>
   \<not> js_lt (Fin 0) (box_height (expand
       \<lparr>xmin = Fin 3, ymin = Fin 4, xmax = Fin 3, ymax = Fin 4, spatialReference = 4326\<rparr>
       (Fin 1.2)))"
  by (simp add: updateBounds_def idx_def expand_def box_width_def box_height_def)

end
